theory Spec2Isabelle
  imports Complex_Main "HOL-Library.Char_ord" "HOL-Library.List_Lexorder" "HOL-Library.AList"
begin

section \<open>Python values and errors\<close>

text \<open>
  The exceptions that the modelled code can raise. A function that can raise returns
  \<open>py_error + 'a\<close>, with \<open>Inl\<close> for the exception.
\<close>

datatype py_error = KeyError | ZeroDivisionError | ValueError | TypeError | IndexError
  | DatasetValidationError

text \<open>
  Scores, thresholds and ratios are Python floats. They are modelled as real numbers:
  rounding is outside the model, while the one float operation that raises, division by
  zero, is a branch of it.
\<close>

definition py_truediv :: "real \<Rightarrow> real \<Rightarrow> py_error + real" where
  "py_truediv a b = (if b = 0 then Inl ZeroDivisionError else Inr (a / b))"

section \<open>The segment-gap condition of ModelErrorAnalysis\<close>

text \<open>
  \<^verbatim>\<open>add_condition_segments_performance_relative_difference_not_greater_than\<close>
  (model_error_analysis.py, lines 166-196) registers the closure \<^verbatim>\<open>condition\<close>.

  A check result is the dictionary the closure reads: \<^verbatim>\<open>result['scorer_name']\<close> and
  \<^verbatim>\<open>result['feature_segments']\<close>, a dictionary from feature name to a dictionary from
  segment name (\<^verbatim>\<open>'segment1'\<close>, \<^verbatim>\<open>'segment2'\<close>) to the segment's statistics.
  Dictionaries keep insertion order, so they are association lists; a well-formed
  dictionary has distinct keys.
\<close>

record segment =
  score :: real
  segment_size :: nat

type_synonym segments = "(string \<times> segment) list"

record check_value =
  scorer_name :: string
  feature_segments :: "(string \<times> segments) list"

datatype ConditionCategory = PASS | WARN | FAIL

text \<open>
  The message of a condition result is the f-string
  \<^verbatim>\<open>f'Found change in {result["scorer_name"]} in features above threshold: {sorted_fails}'\<close>;
  the model keeps its two interpolated parts, the scorer name and the dictionary
  \<^verbatim>\<open>sorted_fails\<close>, in the order in which the text lists them.
\<close>

datatype details = Found_change string "(string \<times> string) list"

datatype ConditionResult = ConditionResult ConditionCategory "details option"

text \<open>
  Lines 182-184: the numerator is evaluated before the denominator, then the division
  raises on a zero denominator.
\<close>

definition performance_diff :: "real \<Rightarrow> real \<Rightarrow> py_error + real" where
  "performance_diff score1 score2 = py_truediv \<bar>score1 - score2\<bar> \<bar>max score1 score2\<bar>"

text \<open>
  The body of the loop of lines 178-186 for one feature. \<^verbatim>\<open>format_percent\<close> comes from
  \<^verbatim>\<open>deepchecks.utils.strings\<close>, which is not part of the sources at hand: it is the
  parameter \<open>fmt\<close>. \<^verbatim>\<open>fails[feature] = ...\<close> is a dictionary store.
\<close>

definition condition_step ::
  "(real \<Rightarrow> string) \<Rightarrow> real \<Rightarrow> (string \<times> segments) list \<Rightarrow> string
     \<Rightarrow> (string \<times> string) list \<Rightarrow> py_error + (string \<times> string) list" where
  "condition_step fmt max_ratio_change feature_res feature fails =
     (case map_of feature_res feature of
        None \<Rightarrow> Inl KeyError
      | Some segs \<Rightarrow>
          if length segs < 2 then Inr fails
          else (case map_of segs ''segment1'' of
                  None \<Rightarrow> Inl KeyError
                | Some s1 \<Rightarrow>
                    (case map_of segs ''segment2'' of
                       None \<Rightarrow> Inl KeyError
                     | Some s2 \<Rightarrow>
                         (case performance_diff (score s1) (score s2) of
                            Inl e \<Rightarrow> Inl e
                          | Inr d \<Rightarrow>
                              if d > max_ratio_change
                              then Inr (AList.update feature (fmt d) fails)
                              else Inr fails))))"

fun condition_loop ::
  "(real \<Rightarrow> string) \<Rightarrow> real \<Rightarrow> (string \<times> segments) list \<Rightarrow> string list
     \<Rightarrow> (string \<times> string) list \<Rightarrow> py_error + (string \<times> string) list" where
  "condition_loop fmt max_ratio_change feature_res [] fails = Inr fails"
| "condition_loop fmt max_ratio_change feature_res (feature # rest) fails =
     (case condition_step fmt max_ratio_change feature_res feature fails of
        Inl e \<Rightarrow> Inl e
      | Inr fails' \<Rightarrow> condition_loop fmt max_ratio_change feature_res rest fails')"

text \<open>
  Lines 175-193. \<^verbatim>\<open>sorted(fails.items(), key=lambda item: item[1])\<close> is a stable sort on
  the stored values, which are the strings that \<^verbatim>\<open>format_percent\<close> returned; Python
  compares strings lexicographically by code point.
\<close>

definition condition ::
  "(real \<Rightarrow> string) \<Rightarrow> real \<Rightarrow> check_value \<Rightarrow> py_error + ConditionResult" where
  "condition fmt max_ratio_change result =
     (let feature_res = feature_segments result in
      case condition_loop fmt max_ratio_change feature_res (map fst feature_res) [] of
        Inl e \<Rightarrow> Inl e
      | Inr fails \<Rightarrow>
          if fails \<noteq> []
          then Inr (ConditionResult WARN
                     (Some (Found_change (scorer_name result) (sort_key snd fails))))
          else Inr (ConditionResult PASS None))"

text \<open>
  The comparison the specification describes, \<open>|score1 - score2| / max(|score1|, |score2|)\<close>,
  written from its words, to be compared with \<open>performance_diff\<close>.
\<close>

definition spec_relative_gap :: "real \<Rightarrow> real \<Rightarrow> real" where
  "spec_relative_gap score1 score2 = \<bar>score1 - score2\<bar> / max \<bar>score1\<bar> \<bar>score2\<bar>"

text \<open>
  Modelled from the spec: \<^verbatim>\<open>format_percent\<close> (\<^verbatim>\<open>deepchecks.utils.strings\<close>) is not among the
  sources, and the specification says of it only what its uses show: it renders a ratio
  as a percentage text, both in the failure report and in the condition's title. The
  model writes the whole percents of the ratio in decimal digits, without padding,
  followed by a percent sign. Theorems about \<open>condition\<close> hold for every formatter; this
  one serves to evaluate \<open>condition\<close> on concrete results.
\<close>

fun decimal :: "nat \<Rightarrow> string" where
  "decimal n = (if n < 10 then [''0123456789'' ! n]
                else decimal (n div 10) @ [''0123456789'' ! (n mod 10)])"

declare decimal.simps [simp del]

definition format_percent :: "real \<Rightarrow> string" where
  "format_percent ratio =
     (if ratio < 0 then ''-'' else []) @ decimal (nat \<lfloor>\<bar>ratio\<bar> * 100\<rfloor>) @ ''%''"

subsection \<open>Reading a result the way the evaluator does\<close>

text \<open>
  A feature has two segments when its dictionary has at least two entries and holds
  \<^verbatim>\<open>'segment1'\<close> and \<^verbatim>\<open>'segment2'\<close>; \<open>two_segments\<close> gives their scores.
\<close>

definition two_segments :: "segments \<Rightarrow> (real \<times> real) option" where
  "two_segments segs =
     (if length segs < 2 then None
      else (case (map_of segs ''segment1'', map_of segs ''segment2'') of
              (Some s1, Some s2) \<Rightarrow> Some (score s1, score s2)
            | _ \<Rightarrow> None))"

definition relative_gap :: "real \<Rightarrow> real \<Rightarrow> real" where
  "relative_gap score1 score2 = \<bar>score1 - score2\<bar> / \<bar>max score1 score2\<bar>"

text \<open>
  A segment dictionary is \<open>keyed\<close> when the evaluator's two lookups cannot raise KeyError:
  it has fewer than two entries (and is skipped) or holds both segment names.
\<close>

definition keyed :: "segments \<Rightarrow> bool" where
  "keyed segs = (length segs < 2 \<or> two_segments segs \<noteq> None)"

definition zero_denominator :: "segments \<Rightarrow> bool" where
  "zero_denominator segs =
     (case two_segments segs of None \<Rightarrow> False | Some (a, b) \<Rightarrow> max a b = 0)"

definition flag ::
  "(real \<Rightarrow> string) \<Rightarrow> real \<Rightarrow> string \<Rightarrow> segments \<Rightarrow> (string \<times> string) list" where
  "flag fmt max_ratio_change feature segs =
     (case two_segments segs of
        None \<Rightarrow> []
      | Some (a, b) \<Rightarrow>
          if relative_gap a b > max_ratio_change
          then [(feature, fmt (relative_gap a b))] else [])"

text \<open>
  The features whose gap exceeds the threshold, in the order of the result, each with
  its formatted gap.
\<close>

definition flagged ::
  "(real \<Rightarrow> string) \<Rightarrow> real \<Rightarrow> (string \<times> segments) list \<Rightarrow> (string \<times> string) list" where
  "flagged fmt max_ratio_change feature_res =
     concat (map (\<lambda>(feature, segs). flag fmt max_ratio_change feature segs) feature_res)"

text \<open>Two segments with the given scores, for concrete results.\<close>

definition two :: "real \<Rightarrow> real \<Rightarrow> segments" where
  "two a b = [(''segment1'', \<lparr>score = a, segment_size = 10\<rparr>),
              (''segment2'', \<lparr>score = b, segment_size = 10\<rparr>)]"

section \<open>The constructor of ModelErrorAnalysis\<close>

text \<open>
  \<^verbatim>\<open>alternative_scorer\<close> is annotated \<^verbatim>\<open>Tuple[str, Union[str, Callable]]\<close> with default
  \<^verbatim>\<open>None\<close>, but Python does not enforce the annotation: the constructor receives any
  object. The values that matter for \<^verbatim>\<open>dict([alternative_scorer])\<close> are modelled: None,
  strings, callables (identified by a name), tuples, lists and dictionaries.
\<close>

datatype pyval = PNone | PStr string | PCallable string
  | PTuple "pyval list" | PList "pyval list" | PDict "(pyval \<times> pyval) list"

text \<open>Truth value of an object in \<^verbatim>\<open>x if alternative_scorer else y\<close>.\<close>

fun truthy :: "pyval \<Rightarrow> bool" where
  "truthy PNone = False"
| "truthy (PStr s) = (s \<noteq> [])"
| "truthy (PCallable f) = True"
| "truthy (PTuple xs) = (xs \<noteq> [])"
| "truthy (PList xs) = (xs \<noteq> [])"
| "truthy (PDict kvs) = (kvs \<noteq> [])"

text \<open>Iterating an object: a dictionary yields its keys, a string its characters.\<close>

fun py_iter :: "pyval \<Rightarrow> py_error + pyval list" where
  "py_iter PNone = Inl TypeError"
| "py_iter (PStr s) = Inr (map (\<lambda>c. PStr [c]) s)"
| "py_iter (PCallable f) = Inl TypeError"
| "py_iter (PTuple xs) = Inr xs"
| "py_iter (PList xs) = Inr xs"
| "py_iter (PDict kvs) = Inr (map fst kvs)"

fun hashable :: "pyval \<Rightarrow> bool" where
  "hashable PNone = True"
| "hashable (PStr s) = True"
| "hashable (PCallable f) = True"
| "hashable (PTuple xs) = list_all hashable xs"
| "hashable (PList xs) = False"
| "hashable (PDict kvs) = False"

text \<open>
  The built-in \<^verbatim>\<open>dict(iterable)\<close>: every element of the iterable must itself iterate to
  exactly two items, a hashable key and a value. An element that is no iterable raises
  TypeError, one of another length raises ValueError, an unhashable key raises TypeError.
\<close>

fun py_dict :: "pyval list \<Rightarrow> (pyval \<times> pyval) list \<Rightarrow> py_error + (pyval \<times> pyval) list" where
  "py_dict [] d = Inr d"
| "py_dict (x # xs) d =
     (case py_iter x of
        Inl e \<Rightarrow> Inl TypeError
      | Inr items \<Rightarrow>
          (case items of
             [k, v] \<Rightarrow> if hashable k then py_dict xs (AList.update k v d) else Inl TypeError
           | _ \<Rightarrow> Inl ValueError))"

text \<open>
  The attributes of a ModelErrorAnalysis object (lines 98-105). The counts are natural
  numbers, the seed an integer.
\<close>

record ModelErrorAnalysis =
  max_features_to_show :: nat
  min_feature_contribution :: real
  min_error_model_score :: real
  min_segment_size :: real
  user_scorer :: pyval
  n_samples :: nat
  n_display_samples :: nat
  random_state :: int

text \<open>
  \<^verbatim>\<open>__init__\<close>, lines 85-105. \<^verbatim>\<open>super().__init__(**kwargs)\<close> belongs to the base class, which
  is not among the sources; it is taken to return. Line 102 is the only statement of the
  body that can raise.
\<close>

definition init ::
  "nat \<Rightarrow> real \<Rightarrow> real \<Rightarrow> real \<Rightarrow> pyval \<Rightarrow> nat \<Rightarrow> nat \<Rightarrow> int \<Rightarrow> py_error + ModelErrorAnalysis" where
  "init max_features_to_show' min_feature_contribution' min_error_model_score'
        min_segment_size' alternative_scorer n_samples' n_display_samples' random_state' =
     (case (if truthy alternative_scorer
            then map_sum id PDict (py_dict [alternative_scorer] [])
            else Inr PNone) of
        Inl e \<Rightarrow> Inl e
      | Inr scorers \<Rightarrow>
          Inr \<lparr>max_features_to_show = max_features_to_show',
               min_feature_contribution = min_feature_contribution',
               min_error_model_score = min_error_model_score',
               min_segment_size = min_segment_size',
               user_scorer = scorers,
               n_samples = n_samples',
               n_display_samples = n_display_samples',
               random_state = random_state'\<rparr>)"

text \<open>The constructor with the default values of its other parameters (lines 87-94).\<close>

definition init_default :: "pyval \<Rightarrow> py_error + ModelErrorAnalysis" where
  "init_default alternative_scorer =
     init 3 (15 / 100) (1 / 2) (5 / 100) alternative_scorer 50000 5000 42"

section \<open>The run of the check\<close>

subsection \<open>Datasets, models and the context\<close>

text \<open>
  A dataset is an ordered collection of rows; a row is its feature values (of some type
  \<open>'x\<close>) and an optional label, \<open>None\<close> being a missing label value. Labels are numbers:
  the target of a regression, or the class of a classification. \<open>label_name\<close> is \<open>None\<close>
  when the dataset has no label column at all.
\<close>

record 'x dataset =
  rows :: "('x \<times> real option) list"
  label_name :: "string option"
  features :: "string list"
  cat_features :: "string list"

definition features_columns :: "'x dataset \<Rightarrow> 'x list" where
  "features_columns ds = map fst (rows ds)"

definition label_col :: "'x dataset \<Rightarrow> real option list" where
  "label_col ds = map snd (rows ds)"

datatype ModelType = REGRESSION | BINARY | MULTICLASS

record 'x model =
  predict :: "'x list \<Rightarrow> real list"
  predict_proba :: "'x list \<Rightarrow> real list list"

record 'x scorer =
  name :: string
  run_scorer :: "'x model \<Rightarrow> 'x dataset \<Rightarrow> real"

record 'x Context =
  train :: "'x dataset"
  test :: "'x dataset"
  task_type :: ModelType
  model :: "'x model"
  get_single_scorer :: "pyval \<Rightarrow> py_error + 'x scorer"

text \<open>
  What the run takes from libraries whose behaviour is statistical: the seeded sampler
  (the positions it draws, from the seed, the population size and the sample size), the
  fitting of the error-contribution model (from the seed, the training features and
  scores and the numeric and categorical feature names), the goodness of fit of
  predictions against scores, and the partition of the held-out rows into segments for
  one feature. They are parameters of the model.
\<close>

record 'x error_model =
  predict_error :: "'x list \<Rightarrow> real list"
  importances :: "(string \<times> real) list"

record 'x externals =
  pick :: "int \<Rightarrow> nat \<Rightarrow> nat \<Rightarrow> nat list"
  fit_error_model ::
    "int \<Rightarrow> 'x list \<Rightarrow> real option list \<Rightarrow> string list \<Rightarrow> string list \<Rightarrow> 'x error_model"
  fit_quality :: "real option list \<Rightarrow> real list \<Rightarrow> real"
  split_segments ::
    "string \<Rightarrow> real list \<Rightarrow> 'x dataset \<Rightarrow> 'x model \<Rightarrow> 'x scorer \<Rightarrow> real \<Rightarrow> int \<Rightarrow> segments"

subsection \<open>Helpers of the repository that are not among the sources\<close>

text \<open>
  Modelled from the spec: \<^verbatim>\<open>Dataset.assert_label\<close> is not among the sources. The
  specification: "raises a data error if labels are absent"; "absent labels entirely:
  hard failure (data-validity error)".
\<close>

definition assert_label :: "'x dataset \<Rightarrow> py_error + unit" where
  "assert_label ds = (if label_name ds = None then Inl DatasetValidationError else Inr ())"

text \<open>
  Modelled from the spec: \<^verbatim>\<open>Dataset.sample(n, random_state, drop_na_label)\<close> is not among
  the sources. The specification: the dataset is "sampled (read-only view) before use",
  \<^verbatim>\<open>n_samples\<close> is a sampling cap, and "missing-label rows: silently dropped prior to
  scoring, not an error". The rows with a missing label are dropped first; of the rest,
  at most \<open>n\<close> are kept, at the positions the seeded sampler draws.
\<close>

definition drop_na :: "'x dataset \<Rightarrow> 'x dataset" where
  "drop_na ds = ds\<lparr>rows := filter (\<lambda>r. snd r \<noteq> None) (rows ds)\<rparr>"

definition sample :: "'x externals \<Rightarrow> nat \<Rightarrow> int \<Rightarrow> bool \<Rightarrow> 'x dataset \<Rightarrow> 'x dataset" where
  "sample ext n random_state' drop_na_label ds =
     (let kept = rows (if drop_na_label then drop_na ds else ds);
          positions = pick ext random_state' (length kept) (min n (length kept))
      in ds\<lparr>rows := map (\<lambda>i. kept ! i) (filter (\<lambda>i. i < length kept) positions)\<rparr>)"

text \<open>
  Modelled from the spec: \<^verbatim>\<open>Dataset.classes\<close> is not among the sources. The specification
  calls it "the training set's label space": the label values that occur in the dataset,
  each once, in ascending order.
\<close>

definition classes :: "'x dataset \<Rightarrow> real list" where
  "classes ds = sort (remdups (List.map_filter snd (rows ds)))"

text \<open>
  Modelled from the spec: \<^verbatim>\<open>per_sample_mse\<close> (\<^verbatim>\<open>deepchecks.utils.single_sample_metrics\<close>) is
  not among the sources. The specification: "for regression, raw squared error is used".
  A missing label has no score (\<open>None\<close>: not a finite number). Arrays of different lengths
  cannot be subtracted.
\<close>

definition per_sample_mse :: "real option list \<Rightarrow> real list \<Rightarrow> py_error + real option list" where
  "per_sample_mse y_true y_pred =
     (if length y_true \<noteq> length y_pred then Inl ValueError
      else Inr (map2 (\<lambda>y p. map_option (\<lambda>v. (v - p)\<^sup>2) y) y_true y_pred))"

text \<open>
  Modelled from the spec: \<^verbatim>\<open>per_sample_cross_entropy\<close> is not among the sources. The
  specification: "per-sample cross-entropy between the true class and predicted
  class-probability vector": minus the logarithm of the probability predicted for the
  true class, which is given by its code, a position in the probability vector. The
  logarithm of a probability that is not positive is no finite number: such a row has
  no score, as a row without a label has none in \<open>per_sample_mse\<close>.
\<close>

definition per_sample_cross_entropy ::
  "nat list \<Rightarrow> real list list \<Rightarrow> py_error + real option list" where
  "per_sample_cross_entropy y_true y_pred =
     (if length y_true \<noteq> length y_pred \<or> list_ex (\<lambda>(k, p). length p \<le> k) (zip y_true y_pred)
      then Inl IndexError
      else Inr (map2 (\<lambda>k p. if 0 < p ! k then Some (- ln (p ! k)) else None) y_true y_pred))"

subsection \<open>The label encoder\<close>

text \<open>
  \<^verbatim>\<open>sklearn.preprocessing.LabelEncoder\<close>: \<^verbatim>\<open>fit\<close> stores the distinct values in ascending
  order, \<^verbatim>\<open>transform\<close> replaces every label by its position among them and raises
  ValueError on a label that \<^verbatim>\<open>fit\<close> has not seen (a missing label is such a one).
\<close>

definition LabelEncoder_fit :: "real list \<Rightarrow> real list" where
  "LabelEncoder_fit ys = sort (remdups ys)"

fun class_code :: "real list \<Rightarrow> real \<Rightarrow> nat option" where
  "class_code [] y = None"
| "class_code (c # cs) y = (if c = y then Some 0 else map_option Suc (class_code cs y))"

fun LabelEncoder_transform :: "real list \<Rightarrow> real option list \<Rightarrow> py_error + nat list" where
  "LabelEncoder_transform le [] = Inr []"
| "LabelEncoder_transform le (y # ys) =
     (case y of
        None \<Rightarrow> Inl ValueError
      | Some v \<Rightarrow>
          (case class_code le v of
             None \<Rightarrow> Inl ValueError
           | Some k \<Rightarrow>
               (case LabelEncoder_transform le ys of
                  Inl e \<Rightarrow> Inl e
                | Inr ks \<Rightarrow> Inr (k # ks))))"

subsection \<open>Scoring\<close>

text \<open>
  Lines 119-130: the closure \<^verbatim>\<open>scoring_func\<close>. It captures the task type, the model and,
  for a classification, the encoder fitted on the classes of \<^verbatim>\<open>train_dataset\<close>, which at
  that line is the sampled train dataset.
\<close>

definition scoring_func ::
  "ModelType \<Rightarrow> 'x model \<Rightarrow> 'x dataset \<Rightarrow> 'x dataset \<Rightarrow> py_error + real option list" where
  "scoring_func task_type' model' train_dataset ds =
     (if task_type' = REGRESSION
      then per_sample_mse (label_col ds) (predict model' (features_columns ds))
      else (let le = LabelEncoder_fit (classes train_dataset) in
            case LabelEncoder_transform le (label_col ds) of
              Inl e \<Rightarrow> Inl e
            | Inr encoded_label \<Rightarrow>
                per_sample_cross_entropy encoded_label
                  (predict_proba model' (features_columns ds))))"

subsection \<open>The error-contribution model and the segment report\<close>

text \<open>
  Modelled from the spec: \<^verbatim>\<open>model_error_contribution\<close>
  (\<^verbatim>\<open>deepchecks.utils.performance.error_model\<close>) is not among the sources. The
  specification: "fit a regression model ... to predict error score from features, using
  the training split; evaluate goodness-of-fit on the held-out split. If fit quality is
  below threshold, contribution reporting is suppressed (empty importances) but
  computation does not fail"; the output is the "per-feature importance scores ... and
  the fitted model's predicted error for the held-out set".
\<close>

definition error_model_score ::
  "'x externals \<Rightarrow> 'x list \<Rightarrow> real option list \<Rightarrow> 'x list \<Rightarrow> real option list
     \<Rightarrow> string list \<Rightarrow> string list \<Rightarrow> int \<Rightarrow> real" where
  "error_model_score ext train_x train_scores test_x test_scores numeric_features cat random_state' =
     fit_quality ext test_scores
       (predict_error
          (fit_error_model ext random_state' train_x train_scores numeric_features cat) test_x)"

definition model_error_contribution ::
  "'x externals \<Rightarrow> 'x list \<Rightarrow> real option list \<Rightarrow> 'x list \<Rightarrow> real option list
     \<Rightarrow> string list \<Rightarrow> string list \<Rightarrow> real \<Rightarrow> int \<Rightarrow> (string \<times> real) list \<times> real list" where
  "model_error_contribution ext train_x train_scores test_x test_scores numeric_features cat
       min_error_model_score' random_state' =
     (let error_model = fit_error_model ext random_state' train_x train_scores numeric_features cat;
          error_model_predicted = predict_error error_model test_x
      in (if error_model_score ext train_x train_scores test_x test_scores numeric_features cat
               random_state' < min_error_model_score'
          then []
          else importances error_model,
          error_model_predicted))"

datatype display_item = Html string | Figure string

text \<open>
  Modelled from the spec: \<^verbatim>\<open>error_model_display\<close> is not among the sources. The
  specification: "select up to \<^verbatim>\<open>max_features_to_show\<close> features whose contribution exceeds
  \<^verbatim>\<open>min_feature_contribution\<close>, ranked descending by importance; for each selected
  feature, partition the held-out rows into a high-predicted-error segment and a
  low-predicted-error segment ...; compute the chosen scorer on model predictions within
  each segment. Output: a mapping from feature name to [its segments], plus visualization
  artifacts". The partition is the parameter \<open>split_segments\<close>; there is one figure for
  every selected feature. The value carries the scorer's name, which the condition
  evaluator reads.
\<close>

definition error_model_display ::
  "'x externals \<Rightarrow> (string \<times> real) list \<Rightarrow> real list \<Rightarrow> 'x dataset \<Rightarrow> 'x model \<Rightarrow> 'x scorer
     \<Rightarrow> nat \<Rightarrow> real \<Rightarrow> nat \<Rightarrow> real \<Rightarrow> int \<Rightarrow> display_item list \<times> check_value" where
  "error_model_display ext error_fi error_model_predicted ds model' scorer'
       max_features_to_show' min_feature_contribution' n_display_samples' min_segment_size'
       random_state' =
     (let ranked = rev (sort_key snd error_fi);
          selected = take max_features_to_show'
                       (filter (\<lambda>(feature, c). c > min_feature_contribution') ranked)
      in (map (\<lambda>(feature, c). Figure feature) selected,
          \<lparr>scorer_name = name scorer',
           feature_segments =
             map (\<lambda>(feature, c).
                    (feature, split_segments ext feature error_model_predicted ds model' scorer'
                                min_segment_size' random_state')) selected\<rparr>))"

subsection \<open>run_logic\<close>

record CheckResult =
  result_value :: check_value
  display :: "display_item list option"

text \<open>
  Lines 158-161: the triple-quoted literal, with its three line breaks and the
  indentation of its lines.
\<close>

definition headnote :: string where
  "headnote =
     ''<span>'' @ [CHR 0x0A] @
     ''            The following graphs show the distribution of error for top features that are most useful for distinguishing'' @ [CHR 0x0A] @
     ''            high error samples from low error samples.'' @ [CHR 0x0A] @
     ''        </span>''"

text \<open>
  Lines 109-133 of \<^verbatim>\<open>run_logic\<close>: the label assertion on the train dataset, the scorer,
  the two samples and the two score vectors.
\<close>

definition error_scores ::
  "'x externals \<Rightarrow> ModelErrorAnalysis \<Rightarrow> 'x Context
     \<Rightarrow> py_error + ('x scorer \<times> 'x dataset \<times> 'x dataset \<times> real option list \<times> real option list)" where
  "error_scores ext self ctx =
     (case assert_label (train ctx) of
        Inl e \<Rightarrow> Inl e
      | Inr u \<Rightarrow>
          (case get_single_scorer ctx (user_scorer self) of
             Inl e \<Rightarrow> Inl e
           | Inr scorer' \<Rightarrow>
               (let train_dataset = sample ext (n_samples self) (random_state self) True (train ctx);
                    test_dataset = sample ext (n_samples self) (random_state self) True (test ctx)
                in case scoring_func (task_type ctx) (model ctx) train_dataset train_dataset of
                     Inl e \<Rightarrow> Inl e
                   | Inr train_scores \<Rightarrow>
                       (case scoring_func (task_type ctx) (model ctx) train_dataset test_dataset of
                          Inl e \<Rightarrow> Inl e
                        | Inr test_scores \<Rightarrow>
                            Inr (scorer', train_dataset, test_dataset, train_scores, test_scores)))))"

text \<open>Line 136: the features of the train dataset that are not categorical.\<close>

definition numeric_features :: "'x dataset \<Rightarrow> string list" where
  "numeric_features train_dataset =
     filter (\<lambda>num_feature. num_feature \<notin> set (cat_features train_dataset)) (features train_dataset)"

text \<open>Lines 135-164: the error-contribution model, the report and the result.\<close>

definition report ::
  "'x externals \<Rightarrow> ModelErrorAnalysis \<Rightarrow> 'x Context
     \<Rightarrow> 'x scorer \<times> 'x dataset \<times> 'x dataset \<times> real option list \<times> real option list
     \<Rightarrow> CheckResult" where
  "report ext self ctx st =
     (case st of (scorer', train_dataset, test_dataset, train_scores, test_scores) \<Rightarrow>
        (let (error_fi, error_model_predicted) =
               model_error_contribution ext (features_columns train_dataset) train_scores
                 (features_columns test_dataset) test_scores
                 (numeric_features train_dataset) (cat_features train_dataset)
                 (min_error_model_score self) (random_state self);
             (display', value') =
               error_model_display ext error_fi error_model_predicted test_dataset (model ctx)
                 scorer' (max_features_to_show self) (min_feature_contribution self)
                 (n_display_samples self) (min_segment_size self) (random_state self)
         in \<lparr>result_value = value',
             display = (if display' \<noteq> [] then Some (Html headnote # display') else None)\<rparr>))"

definition run_logic ::
  "'x externals \<Rightarrow> ModelErrorAnalysis \<Rightarrow> 'x Context \<Rightarrow> py_error + CheckResult" where
  "run_logic ext self ctx =
     (case error_scores ext self ctx of
        Inl e \<Rightarrow> Inl e
      | Inr st \<Rightarrow> Inr (report ext self ctx st))"

text \<open>
  The held-out fit quality of the error-contribution model in a run that has computed
  its scores.
\<close>

definition held_out_fit_quality ::
  "'x externals \<Rightarrow> ModelErrorAnalysis
     \<Rightarrow> 'x scorer \<times> 'x dataset \<times> 'x dataset \<times> real option list \<times> real option list \<Rightarrow> real" where
  "held_out_fit_quality ext self st =
     (case st of (scorer', train_dataset, test_dataset, train_scores, test_scores) \<Rightarrow>
        error_model_score ext (features_columns train_dataset) train_scores
          (features_columns test_dataset) test_scores
          (numeric_features train_dataset) (cat_features train_dataset) (random_state self))"

section \<open>The default suites\<close>

text \<open>
  default_suites.py. The check classes and \<^verbatim>\<open>Suite\<close> are not among the sources: a check is
  built by the parameter \<open>build\<close> from its class name, the names of the condition
  methods called on it, in order, and the keyword arguments; building can raise. The
  arguments of \<^verbatim>\<open>Suite(...)\<close> are evaluated from left to right, and the first exception
  ends the call.
\<close>

type_synonym kwargs = "(string \<times> pyval) list"

datatype 'c suite = Suite string "'c list"

fun build_checks ::
  "(string \<Rightarrow> string list \<Rightarrow> kwargs \<Rightarrow> py_error + 'c) \<Rightarrow> kwargs
     \<Rightarrow> (string \<times> string list) list \<Rightarrow> py_error + 'c list" where
  "build_checks build kw [] = Inr []"
| "build_checks build kw ((cls, conditions) # rest) =
     (case build cls conditions kw of
        Inl e \<Rightarrow> Inl e
      | Inr c \<Rightarrow>
          (case build_checks build kw rest of
             Inl e \<Rightarrow> Inl e
           | Inr cs \<Rightarrow> Inr (c # cs)))"

definition data_integrity ::
  "(string \<Rightarrow> string list \<Rightarrow> kwargs \<Rightarrow> py_error + 'c) \<Rightarrow> kwargs \<Rightarrow> py_error + 'c suite" where
  "data_integrity build kw =
     map_sum id (Suite ''Data Integrity Suite'')
       (build_checks build kw
          [(''IsSingleValue'', [''add_condition_not_single_value'']),
           (''SpecialCharacters'', [''add_condition_ratio_of_special_characters_less_or_equal'']),
           (''MixedNulls'', [''add_condition_different_nulls_less_equal_to'']),
           (''MixedDataTypes'', [''add_condition_rare_type_ratio_not_in_range'']),
           (''StringMismatch'', [''add_condition_no_variants'']),
           (''DataDuplicates'', [''add_condition_ratio_less_or_equal'']),
           (''StringLengthOutOfBounds'', [''add_condition_ratio_of_outliers_less_or_equal'']),
           (''ConflictingLabels'', [''add_condition_ratio_of_conflicting_labels_less_or_equal'']),
           (''OutlierSampleDetection'', []),
           (''FeatureLabelCorrelation'', [''add_condition_feature_pps_less_than'']),
           (''IdentifierLabelCorrelation'', [''add_condition_pps_less_or_equal''])])"

definition train_test_validation ::
  "(string \<Rightarrow> string list \<Rightarrow> kwargs \<Rightarrow> py_error + 'c) \<Rightarrow> kwargs \<Rightarrow> py_error + 'c suite" where
  "train_test_validation build kw =
     map_sum id (Suite ''Train Test Validation Suite'')
       (build_checks build kw
          [(''DatasetsSizeComparison'', [''add_condition_test_train_size_ratio_greater_than'']),
           (''NewLabelTrainTest'', [''add_condition_new_labels_number_less_or_equal'']),
           (''CategoryMismatchTrainTest'', [''add_condition_new_category_ratio_less_or_equal'']),
           (''StringMismatchComparison'', [''add_condition_no_new_variants'']),
           (''DateTrainTestLeakageDuplicates'', [''add_condition_leakage_ratio_less_or_equal'']),
           (''DateTrainTestLeakageOverlap'', [''add_condition_leakage_ratio_less_or_equal'']),
           (''IndexTrainTestLeakage'', [''add_condition_ratio_less_or_equal'']),
           (''TrainTestSamplesMix'', [''add_condition_duplicates_ratio_less_or_equal'']),
           (''FeatureLabelCorrelationChange'',
              [''add_condition_feature_pps_difference_less_than'',
               ''add_condition_feature_pps_in_train_less_than'']),
           (''TrainTestFeatureDrift'', [''add_condition_drift_score_less_than'']),
           (''TrainTestLabelDrift'', [''add_condition_drift_score_less_than'']),
           (''WholeDatasetDrift'', [''add_condition_overall_drift_value_less_than''])])"

text \<open>
  \<^verbatim>\<open>warnings.warn(message, DeprecationWarning)\<close> appends to the warnings issued so far,
  which are state passed through the call. The two deprecated constructors warn, then
  call their successor.
\<close>

datatype warning = DeprecationWarning string

definition single_dataset_integrity ::
  "(string \<Rightarrow> string list \<Rightarrow> kwargs \<Rightarrow> py_error + 'c) \<Rightarrow> kwargs \<Rightarrow> warning list
     \<Rightarrow> (py_error + 'c suite) \<times> warning list" where
  "single_dataset_integrity build kw issued =
     (let issued' = issued @ [DeprecationWarning
            ''the single_dataset_integrity suite is deprecated, use the data_integrity suite instead'']
      in (data_integrity build kw, issued'))"

definition train_test_leakage ::
  "(string \<Rightarrow> string list \<Rightarrow> kwargs \<Rightarrow> py_error + 'c) \<Rightarrow> kwargs \<Rightarrow> warning list
     \<Rightarrow> (py_error + 'c suite) \<times> warning list" where
  "train_test_leakage build kw issued =
     (let issued' = issued @ [DeprecationWarning
            ''the train_test_leakage suite is deprecated, use the train_test_validation suite instead'']
      in (train_test_validation build kw, issued'))"

section \<open>Concrete inputs\<close>

text \<open>Check results on which the condition is evaluated.\<close>

definition gap_example :: check_value where
  "gap_example =
     \<lparr>scorer_name = ''Accuracy'',
      feature_segments =
        [(''age'', two 1 (1 / 2)),
         (''income'', two (- 1) (- 2)),
         (''city'', [(''segment1'', \<lparr>score = 0, segment_size = 20\<rparr>)]),
         (''height'', two 1 1)]\<rparr>"

definition negative_scores_example :: check_value where
  "negative_scores_example =
     \<lparr>scorer_name = ''Neg MSE'', feature_segments = [(''income'', two (- 1) (- 2))]\<rparr>"

definition zero_score_example :: check_value where
  "zero_score_example =
     \<lparr>scorer_name = ''Neg MSE'', feature_segments = [(''income'', two 0 (- 1))]\<rparr>"

definition order_example :: check_value where
  "order_example =
     \<lparr>scorer_name = ''Accuracy'',
      feature_segments = [(''age'', two 1 (1 / 2)), (''income'', two 1 0)]\<rparr>"

text \<open>Arguments for \<^verbatim>\<open>alternative_scorer\<close> holding three and two scorers.\<close>

definition three_scorers :: "pyval list" where
  "three_scorers = [PTuple [PStr ''a'', PCallable ''f''], PTuple [PStr ''b'', PCallable ''g''],
                    PTuple [PStr ''c'', PCallable ''h'']]"

definition three_scorers_dict :: "(pyval \<times> pyval) list" where
  "three_scorers_dict = [(PStr ''a'', PCallable ''f''), (PStr ''b'', PCallable ''g''),
                         (PStr ''c'', PCallable ''h'')]"

definition two_scorers :: "pyval" where
  "two_scorers = PTuple [PTuple [PStr ''a'', PCallable ''f''], PTuple [PStr ''b'', PCallable ''g'']]"

text \<open>
  A run of the check: three train rows and two test rows, one of each with a missing
  label, a model that predicts 1 and the class probabilities (0, 1), a sampler that
  draws the positions 1, 0, 2 and an error-contribution model whose fit quality is 0.
\<close>

definition example_externals :: "nat externals" where
  "example_externals =
     \<lparr>pick = (\<lambda>seed population n. [1, 0, 2]),
      fit_error_model = (\<lambda>seed train_x train_scores numeric cat.
         \<lparr>predict_error = map (\<lambda>x. 0), importances = [(''age'', 1)]\<rparr>),
      fit_quality = (\<lambda>scores predicted. 0),
      split_segments = (\<lambda>feature predicted ds m sc min_size seed. two 1 (1 / 2))\<rparr>"

definition example_model :: "nat model" where
  "example_model = \<lparr>predict = map (\<lambda>x. 1), predict_proba = map (\<lambda>x. [0, 1])\<rparr>"

definition example_scorer :: "nat scorer" where
  "example_scorer = \<lparr>name = ''Accuracy'', run_scorer = (\<lambda>m ds. 1)\<rparr>"

definition example_train :: "nat dataset" where
  "example_train = \<lparr>rows = [(7, Some 3), (8, None), (9, Some 5)], label_name = Some ''target'',
                     features = [''age''], cat_features = []\<rparr>"

definition example_test :: "nat dataset" where
  "example_test = \<lparr>rows = [(4, Some 5), (6, None)], label_name = Some ''target'',
                    features = [''age''], cat_features = []\<rparr>"

definition example_context :: "ModelType \<Rightarrow> nat Context" where
  "example_context t =
     \<lparr>train = example_train, test = example_test, task_type = t, model = example_model,
      get_single_scorer = (\<lambda>user. Inr example_scorer)\<rparr>"

definition example_check :: ModelErrorAnalysis where
  "example_check =
     \<lparr>max_features_to_show = 3, min_feature_contribution = 15 / 100,
      min_error_model_score = 1 / 2, min_segment_size = 5 / 100, user_scorer = PNone,
      n_samples = 50000, n_display_samples = 5000, random_state = 42\<rparr>"

definition scored_train :: "nat dataset" where
  "scored_train = example_train\<lparr>rows := [(9, Some 5), (7, Some 3)]\<rparr>"

definition scored_test :: "nat dataset" where
  "scored_test = example_test\<lparr>rows := [(4, Some 5)]\<rparr>"

text \<open>
  A held-out dataset whose only label, 4, does not occur in the sampled train dataset,
  and the classification run that samples it.
\<close>

definition unseen_test :: "nat dataset" where
  "unseen_test = example_test\<lparr>rows := [(4, Some 4)]\<rparr>"

definition unseen_label_context :: "nat Context" where
  "unseen_label_context =
     (example_context BINARY)\<lparr>test := example_test\<lparr>rows := [(4, Some 4), (6, None)]\<rparr>\<rparr>"




section \<open>The condition evaluator: which features it reports\<close>

lemma format_percent_whole: "format_percent 1 = ''100%''"
  by (simp add: format_percent_def decimal.simps)

lemma format_percent_half: "format_percent (1 / 2) = ''50%''"
  by (simp add: format_percent_def decimal.simps)

lemma update_fresh: "k \<notin> fst ` set xs \<Longrightarrow> AList.update k v xs = xs @ [(k, v)]"
  by (induction xs) auto

text \<open>
  One pass of the loop on a feature whose lookups succeed: it raises on a zero
  denominator and otherwise stores the feature when its gap exceeds the threshold.
\<close>

lemma condition_step_keyed:
  assumes "map_of fr f = Some segs" "keyed segs"
  shows "condition_step fmt thr fr f fails =
     (if zero_denominator segs then Inl ZeroDivisionError
      else Inr (case flag fmt thr f segs of [] \<Rightarrow> fails | (k, v) # _ \<Rightarrow> AList.update k v fails))"
  using assms
  by (auto simp: condition_step_def keyed_def two_segments_def zero_denominator_def flag_def
      performance_diff_def py_truediv_def relative_gap_def split: option.splits)

lemma set_flag: "fst ` set (flag fmt thr f segs) \<subseteq> {f}"
  by (auto simp: flag_def split: option.splits prod.splits if_splits)

lemma condition_step_ok:
  assumes "map_of fr f = Some segs" "keyed segs" "\<not> zero_denominator segs" "f \<notin> fst ` set fails"
  shows "condition_step fmt thr fr f fails = Inr (fails @ flag fmt thr f segs)"
  using assms
  by (auto simp: condition_step_keyed update_fresh flag_def split: option.splits)

text \<open>
  The loop, by induction on the features still to visit, for any dictionary of failures
  collected so far that holds none of them.
\<close>

lemma condition_loop_ok:
  assumes "distinct ks" "fst ` set fails \<inter> set ks = {}"
    and "\<forall>f \<in> set ks. \<exists>segs. map_of fr f = Some segs \<and> keyed segs \<and> \<not> zero_denominator segs"
  shows "condition_loop fmt thr fr ks fails =
           Inr (fails @ concat (map (\<lambda>f. flag fmt thr f (the (map_of fr f))) ks))"
  using assms
proof (induction ks arbitrary: fails)
  case Nil
  then show ?case by simp
next
  case (Cons f ks)
  from Cons.prems obtain segs where s: "map_of fr f = Some segs" "keyed segs" "\<not> zero_denominator segs"
    by auto
  have fresh: "f \<notin> fst ` set fails" using Cons.prems by auto
  have step: "condition_step fmt thr fr f fails = Inr (fails @ flag fmt thr f segs)"
    by (rule condition_step_ok [OF s fresh])
  have disj: "fst ` set (fails @ flag fmt thr f segs) \<inter> set ks = {}"
    using Cons.prems set_flag [of fmt thr f segs] by auto
  have "condition_loop fmt thr fr ks (fails @ flag fmt thr f segs) =
          Inr ((fails @ flag fmt thr f segs) @ concat (map (\<lambda>f. flag fmt thr f (the (map_of fr f))) ks))"
    using Cons.prems by (intro Cons.IH disj) auto
  then show ?case using step s by simp
qed

lemma condition_loop_zero:
  assumes "\<forall>f \<in> set ks. \<exists>segs. map_of fr f = Some segs \<and> keyed segs"
    and "\<exists>f \<in> set ks. zero_denominator (the (map_of fr f))"
  shows "condition_loop fmt thr fr ks fails = Inl ZeroDivisionError"
  using assms
proof (induction ks arbitrary: fails)
  case Nil
  then show ?case by simp
next
  case (Cons f ks)
  from Cons.prems obtain segs where s: "map_of fr f = Some segs" "keyed segs" by auto
  show ?case
  proof (cases "zero_denominator segs")
    case True
    then show ?thesis using s by (simp add: condition_step_keyed)
  next
    case False
    then have "\<exists>g \<in> set ks. zero_denominator (the (map_of fr g))"
      using Cons.prems s by auto
    then have "\<And>fails'. condition_loop fmt thr fr ks fails' = Inl ZeroDivisionError"
      using Cons.prems by (intro Cons.IH) auto
    then show ?thesis using s False by (simp add: condition_step_keyed)
  qed
qed

lemma map_keys_lookup:
  assumes "distinct (map fst fr)"
  shows "map (\<lambda>f. g f (the (map_of fr f))) (map fst fr) = map (\<lambda>(f, segs). g f segs) fr"
  using assms by (auto simp: map_of_eq_Some_iff [THEN iffD2])

lemma condition_closed_form:
  assumes d: "distinct (map fst (feature_segments result))"
    and wf: "\<forall>(f, segs) \<in> set (feature_segments result). keyed segs \<and> \<not> zero_denominator segs"
  shows "condition fmt thr result =
           Inr (if flagged fmt thr (feature_segments result) = [] then ConditionResult PASS None
                else ConditionResult WARN (Some (Found_change (scorer_name result)
                       (sort_key snd (flagged fmt thr (feature_segments result))))))"
proof -
  let ?fr = "feature_segments result"
  have keys: "\<forall>f \<in> set (map fst ?fr). \<exists>segs. map_of ?fr f = Some segs \<and> keyed segs \<and> \<not> zero_denominator segs"
    using d wf by (fastforce simp: map_of_eq_Some_iff)
  have "condition_loop fmt thr ?fr (map fst ?fr) [] =
          Inr ([] @ concat (map (\<lambda>f. flag fmt thr f (the (map_of ?fr f))) (map fst ?fr)))"
    by (rule condition_loop_ok [OF d _ keys]) simp
  also have "map (\<lambda>f. flag fmt thr f (the (map_of ?fr f))) (map fst ?fr) =
               map (\<lambda>(f, segs). flag fmt thr f segs) ?fr"
    by (rule map_keys_lookup [OF d])
  finally have "condition_loop fmt thr ?fr (map fst ?fr) [] = Inr (flagged fmt thr ?fr)"
    by (simp add: flagged_def)
  then show ?thesis by (simp add: condition_def)
qed

lemma set_flagged:
  "fst ` set (flagged fmt thr fr) =
     {f. \<exists>segs a b. (f, segs) \<in> set fr \<and> two_segments segs = Some (a, b) \<and> thr < relative_gap a b}"
  by (auto simp: flagged_def flag_def image_iff split: option.splits if_splits) force+

lemma two_segments_two: "two_segments (two a b) = Some (a, b)"
  by (simp add: two_segments_def two_def)

lemma keyed_two: "keyed (two a b)"
  by (simp add: keyed_def two_segments_two)

lemma keyed_single: "keyed [s]"
  by (simp add: keyed_def)

lemma zero_denominator_two: "zero_denominator (two a b) = (max a b = 0)"
  by (simp add: zero_denominator_def two_segments_two)

lemma zero_denominator_single: "\<not> zero_denominator [s]"
  by (simp add: zero_denominator_def two_segments_def)

lemma gap_example_flagged:
  "flagged fmt (3 / 4) (feature_segments gap_example) = [(''income'', fmt 1)]"
  by (simp add: flagged_def flag_def gap_example_def two_segments_two relative_gap_def)
     (simp add: two_segments_def)

text \<open>
  Claim C1, as the code has it. For every check result whose features are distinct, whose
  features with two or more segment entries hold \<^verbatim>\<open>'segment1'\<close> and \<^verbatim>\<open>'segment2'\<close>, and in
  which no such feature has a greater score of zero, the evaluator returns a condition
  result: it computes the gap of a feature as
  \<open>|score1 - score2| / |max(score1, score2)|\<close>, reports exactly the features whose gap
  exceeds the threshold, each with its formatted gap, with category WARN, and passes
  when no gap exceeds the threshold.
\<close>

theorem condition_flags_exactly:
  assumes "distinct (map fst (feature_segments result))"
    and "\<forall>(f, segs) \<in> set (feature_segments result). keyed segs \<and> \<not> zero_denominator segs"
  shows "condition fmt thr result =
           Inr (if flagged fmt thr (feature_segments result) = [] then ConditionResult PASS None
                else ConditionResult WARN (Some (Found_change (scorer_name result)
                       (sort_key snd (flagged fmt thr (feature_segments result))))))
         \<and> fst ` set (sort_key snd (flagged fmt thr (feature_segments result))) =
             {f. \<exists>segs a b. (f, segs) \<in> set (feature_segments result)
                   \<and> two_segments segs = Some (a, b) \<and> thr < relative_gap a b}"
  using condition_closed_form [OF assms] by (simp add: set_flagged)

text \<open>
  The statement above on a result with four features: only the gap of \<open>income\<close>, which is
  1, exceeds 3/4, and none exceeds 2.
\<close>

theorem condition_flags_exactly_witness:
  "distinct (map fst (feature_segments gap_example))
   \<and> list_all (\<lambda>(f, segs). keyed segs \<and> \<not> zero_denominator segs)
         (feature_segments gap_example)
   \<and> condition format_percent (3 / 4) gap_example =
       Inr (ConditionResult WARN (Some (Found_change ''Accuracy'' [(''income'', ''100%'')])))
   \<and> condition format_percent 2 gap_example = Inr (ConditionResult PASS None)"
proof -
  have d: "distinct (map fst (feature_segments gap_example))"
    by (simp add: gap_example_def)
  have wf: "\<forall>(f, segs) \<in> set (feature_segments gap_example). keyed segs \<and> \<not> zero_denominator segs"
    by (simp add: gap_example_def keyed_two keyed_single zero_denominator_two
        zero_denominator_single)
  have none: "flagged format_percent 2 (feature_segments gap_example) = []"
    by (simp add: flagged_def flag_def gap_example_def two_segments_two relative_gap_def)
       (simp add: two_segments_def)
  have n: "scorer_name gap_example = ''Accuracy''" by (simp add: gap_example_def)
  from condition_flags_exactly [OF d wf, of format_percent "3 / 4"]
  have a: "condition format_percent (3 / 4) gap_example =
       Inr (ConditionResult WARN (Some (Found_change ''Accuracy'' [(''income'', ''100%'')])))"
    by (simp add: gap_example_flagged format_percent_whole n)
  from condition_flags_exactly [OF d wf, of format_percent 2]
  have b: "condition format_percent 2 gap_example = Inr (ConditionResult PASS None)"
    by (simp add: none)
  have wf': "list_all (\<lambda>(f, segs). keyed segs \<and> \<not> zero_denominator segs)
         (feature_segments gap_example)"
    using wf by (simp add: list_all_iff)
  from d wf' a b show ?thesis by blast
qed

text \<open>
  Claim C1 as the specification words it, with the denominator \<open>max(|score1|, |score2|)\<close>,
  fails on the scores -1 and -2: the specification's gap is 1/2, which does not exceed
  3/4, while the evaluator computes 1 and reports the feature.
\<close>

theorem condition_gap_not_spec_gap:
  "performance_diff (- 1) (- 2) = Inr 1
   \<and> spec_relative_gap (- 1) (- 2) = 1 / 2
   \<and> \<not> (3 / 4 < spec_relative_gap (- 1) (- 2))
   \<and> condition format_percent (3 / 4) negative_scores_example =
       Inr (ConditionResult WARN (Some (Found_change ''Neg MSE'' [(''income'', ''100%'')])))"
  by (simp add: performance_diff_def py_truediv_def spec_relative_gap_def condition_def
      condition_step_def negative_scores_example_def two_def format_percent_whole)

section \<open>The condition evaluator: division by zero\<close>

text \<open>
  Claim C9: the division is unguarded. For every check result with distinct features
  whose lookups succeed, if some feature with two segments has a greater score equal to
  zero, the evaluation raises ZeroDivisionError and returns no condition result.
\<close>

theorem condition_divides_by_zero:
  assumes "distinct (map fst (feature_segments result))"
    and "\<forall>(f, segs) \<in> set (feature_segments result). keyed segs"
    and "\<exists>(f, segs) \<in> set (feature_segments result). zero_denominator segs"
  shows "condition fmt thr result = Inl ZeroDivisionError"
proof -
  let ?fr = "feature_segments result"
  have keys: "\<forall>f \<in> set (map fst ?fr). \<exists>segs. map_of ?fr f = Some segs \<and> keyed segs"
    using assms(1,2) by (fastforce simp: map_of_eq_Some_iff)
  from assms(3) obtain f segs where "(f, segs) \<in> set ?fr" "zero_denominator segs" by auto
  then have "f \<in> set (map fst ?fr)" "zero_denominator (the (map_of ?fr f))"
    using assms(1) by (force, simp)
  then have "\<exists>f \<in> set (map fst ?fr). zero_denominator (the (map_of ?fr f))" by blast
  from condition_loop_zero [OF keys this] show ?thesis by (simp add: condition_def)
qed

text \<open>The scores 0 and -1 are such a result.\<close>

theorem condition_divides_by_zero_witness:
  "distinct (map fst (feature_segments zero_score_example))
   \<and> list_all (\<lambda>(f, segs). keyed segs) (feature_segments zero_score_example)
   \<and> list_ex (\<lambda>(f, segs). zero_denominator segs) (feature_segments zero_score_example)
   \<and> condition format_percent (1 / 20) zero_score_example = Inl ZeroDivisionError"
proof -
  have d: "distinct (map fst (feature_segments zero_score_example))"
    by (simp add: zero_score_example_def)
  have k: "\<forall>(f, segs) \<in> set (feature_segments zero_score_example). keyed segs"
    by (simp add: zero_score_example_def keyed_two)
  have z: "\<exists>(f, segs) \<in> set (feature_segments zero_score_example). zero_denominator segs"
    by (simp add: zero_score_example_def zero_denominator_two)
  have k': "list_all (\<lambda>(f, segs). keyed segs) (feature_segments zero_score_example)"
    using k by (simp add: list_all_iff)
  have z': "list_ex (\<lambda>(f, segs). zero_denominator segs) (feature_segments zero_score_example)"
    using z by (simp add: list_ex_iff)
  from condition_divides_by_zero [OF d k z, of format_percent "1 / 20"] d k' z'
  show ?thesis by blast
qed

section \<open>The condition evaluator: the order of the report\<close>

text \<open>
  Whatever the formatter, the report is in ascending order of the formatted texts.
\<close>

lemma condition_report_sorted_by_text:
  assumes "condition fmt thr result = Inr (ConditionResult WARN (Some (Found_change n fails)))"
  shows "sorted (map snd fails)"
  using assms
  by (auto simp: condition_def Let_def split: sum.splits if_splits)

text \<open>
  Two features with the gaps 1/2 and 1: every formatter whose text for 1 is
  lexicographically below its text for 1/2 (as "100%" is below "50%") makes the report
  list the greater gap first.
\<close>

lemma order_example_any_formatter:
  assumes "fmt 1 < fmt (1 / 2)"
  shows "condition fmt (1 / 20) order_example =
           Inr (ConditionResult WARN (Some (Found_change ''Accuracy''
                  [(''income'', fmt 1), (''age'', fmt (1 / 2))])))"
  using assms
  by (simp add: condition_def condition_step_def order_example_def two_def performance_diff_def
      py_truediv_def)

text \<open>
  Claim C2 asks for the report in ascending order of the numeric gaps. On the result with
  the gaps 1/2 (\<open>age\<close>) and 1 (\<open>income\<close>) the evaluator lists \<open>income\<close> before \<open>age\<close>: the
  sort key is the formatted text, and "100%" sorts before "50%".
\<close>

theorem condition_report_text_order:
  "performance_diff 1 (1 / 2) = Inr (1 / 2)
   \<and> performance_diff 1 0 = Inr 1
   \<and> condition format_percent (1 / 20) order_example =
       Inr (ConditionResult WARN (Some (Found_change ''Accuracy''
              [(''income'', ''100%''), (''age'', ''50%'')])))"
  by (simp add: condition_def condition_step_def order_example_def two_def performance_diff_def
      py_truediv_def format_percent_whole format_percent_half)

section \<open>The constructor and the alternative scorer\<close>

lemma py_dict_long:
  assumes "py_iter x = Inr items" "3 \<le> length items"
  shows "py_dict [x] [] = Inl ValueError"
proof -
  obtain a b c rest where "items = a # b # c # rest"
    using assms(2) by (auto simp: Suc_le_length_iff numeral_3_eq_3)
  then show ?thesis using assms(1) by simp
qed

text \<open>
  Claim C8, as the code has it. Constructing with no alternative scorer succeeds and
  stores None; constructing with a single (name, callable) pair succeeds and stores the
  one-entry dictionary from the name to the callable; constructing with a tuple, a list
  or a dictionary of three or more scorers raises ValueError at construction time.
\<close>

theorem init_alternative_scorer:
  "(\<exists>r. init m1 m2 m3 m4 PNone n1 n2 s = Inr r \<and> user_scorer r = PNone)
   \<and> (\<exists>r. init m1 m2 m3 m4 (PTuple [PStr nm, f]) n1 n2 s = Inr r
          \<and> user_scorer r = PDict [(PStr nm, f)])
   \<and> (3 \<le> length xs \<longrightarrow>
        init m1 m2 m3 m4 (PTuple xs) n1 n2 s = Inl ValueError
        \<and> init m1 m2 m3 m4 (PList xs) n1 n2 s = Inl ValueError)
   \<and> (3 \<le> length kvs \<longrightarrow> init m1 m2 m3 m4 (PDict kvs) n1 n2 s = Inl ValueError)"
proof (intro conjI impI)
  show "\<exists>r. init m1 m2 m3 m4 PNone n1 n2 s = Inr r \<and> user_scorer r = PNone"
    by (simp add: init_def)
  show "\<exists>r. init m1 m2 m3 m4 (PTuple [PStr nm, f]) n1 n2 s = Inr r
          \<and> user_scorer r = PDict [(PStr nm, f)]"
    by (simp add: init_def)
next
  assume l: "3 \<le> length xs"
  then have ne: "xs \<noteq> []" by auto
  show "init m1 m2 m3 m4 (PTuple xs) n1 n2 s = Inl ValueError"
    using py_dict_long [of "PTuple xs" xs] l ne by (simp add: init_def)
  show "init m1 m2 m3 m4 (PList xs) n1 n2 s = Inl ValueError"
    using py_dict_long [of "PList xs" xs] l ne by (simp add: init_def)
next
  assume l: "3 \<le> length kvs"
  then have ne: "kvs \<noteq> []" by auto
  show "init m1 m2 m3 m4 (PDict kvs) n1 n2 s = Inl ValueError"
    using py_dict_long [of "PDict kvs" "map fst kvs"] l ne by (simp add: init_def)
qed

text \<open>Three (name, callable) pairs, as a tuple, as a list and as a dictionary.\<close>

theorem init_alternative_scorer_witness:
  "3 \<le> length three_scorers
   \<and> init_default (PTuple three_scorers) = Inl ValueError
   \<and> init_default (PList three_scorers) = Inl ValueError
   \<and> 3 \<le> length three_scorers_dict
   \<and> init_default (PDict three_scorers_dict) = Inl ValueError"
proof -
  have l: "3 \<le> length three_scorers" by (simp add: three_scorers_def)
  have k: "3 \<le> length three_scorers_dict" by (simp add: three_scorers_dict_def)
  from init_alternative_scorer [of 3 "15 / 100" "1 / 2" "5 / 100" 50000 5000 42 "''a''" PNone
      three_scorers three_scorers_dict] l k
  show ?thesis by (simp add: init_default_def)
qed

text \<open>
  Claim C8 as the specification words it, a failure for more than one scorer, does not
  hold for two: a pair of (name, callable) pairs is accepted, and stored as a one-entry
  dictionary from the first pair to the second.
\<close>

theorem init_two_scorers_accepted:
  "init_default two_scorers =
     Inr \<lparr>max_features_to_show = 3, min_feature_contribution = 15 / 100,
          min_error_model_score = 1 / 2, min_segment_size = 5 / 100,
          user_scorer = PDict [(PTuple [PStr ''a'', PCallable ''f''],
                                PTuple [PStr ''b'', PCallable ''g''])],
          n_samples = 50000, n_display_samples = 5000, random_state = 42\<rparr>"
  by (simp add: init_default_def init_def two_scorers_def)

section \<open>The deprecated suites\<close>

text \<open>
  Claim C10. For all keyword arguments, \<^verbatim>\<open>single_dataset_integrity\<close> issues one
  DeprecationWarning and returns what \<^verbatim>\<open>data_integrity\<close> returns (or raises what it
  raises) for the same arguments, and \<^verbatim>\<open>train_test_leakage\<close> does the same with
  \<^verbatim>\<open>train_test_validation\<close>.
\<close>

theorem deprecated_suites_delegate:
  "single_dataset_integrity build kw issued =
     (data_integrity build kw,
      issued @ [DeprecationWarning
        ''the single_dataset_integrity suite is deprecated, use the data_integrity suite instead''])
   \<and> train_test_leakage build kw issued =
     (train_test_validation build kw,
      issued @ [DeprecationWarning
        ''the train_test_leakage suite is deprecated, use the train_test_validation suite instead''])"
  by (simp add: single_dataset_integrity_def train_test_leakage_def)

section \<open>The run of the check: scores\<close>

lemma ex_sample_train:
  "sample example_externals 50000 42 True example_train = example_train\<lparr>rows := [(9, Some 5), (7, Some 3)]\<rparr>"
  by (simp add: sample_def drop_na_def example_externals_def example_train_def)

lemma ex_sample_test:
  "sample example_externals 50000 42 True example_test = example_test\<lparr>rows := [(4, Some 5)]\<rparr>"
  by (simp add: sample_def drop_na_def example_externals_def example_test_def)

lemma ex_label: "label_name example_train = Some ''target''"
  by (simp add: example_train_def)

lemma ex_scores:
  "error_scores example_externals example_check (example_context REGRESSION) =
     Inr (example_scorer, example_train\<lparr>rows := [(9, Some 5), (7, Some 3)]\<rparr>,
          example_test\<lparr>rows := [(4, Some 5)]\<rparr>, [Some 16, Some 4], [Some 16])"
  by (simp add: error_scores_def assert_label_def example_context_def example_check_def
      ex_sample_train ex_sample_test scoring_func_def per_sample_mse_def label_col_def
      features_columns_def example_model_def ex_label Let_def)

lemma LabelEncoder_fit_classes: "LabelEncoder_fit (classes tr) = classes tr"
proof -
  have "LabelEncoder_fit (classes tr) = sort (remdups (classes tr))"
    by (simp add: LabelEncoder_fit_def)
  also have "remdups (classes tr) = classes tr"
    by (simp add: classes_def)
  also have "sort (classes tr) = classes tr"
    by (rule sort_key_id_if_sorted) (simp add: classes_def)
  finally show ?thesis .
qed

lemma class_code_member:
  "y \<in> set cs \<Longrightarrow> \<exists>k. class_code cs y = Some k \<and> k < length cs \<and> cs ! k = y"
  by (induction cs) auto

lemma class_code_None: "class_code cs y = None \<longleftrightarrow> y \<notin> set cs"
  by (induction cs) auto

lemma transform_present:
  assumes "\<forall>y \<in> set ys. \<exists>v. y = Some v \<and> v \<in> set le"
  shows "LabelEncoder_transform le ys = Inr (map (\<lambda>y. the (class_code le (the y))) ys)"
  using assms
proof (induction ys)
  case Nil
  then show ?case by simp
next
  case (Cons y ys)
  from Cons.prems obtain v where v: "y = Some v" "v \<in> set le" by auto
  from class_code_member [OF v(2)] obtain k where "class_code le v = Some k" by blast
  with Cons v show ?case by simp
qed

lemma transform_error: "LabelEncoder_transform le ys = Inl e \<Longrightarrow> e = ValueError"
  by (induction ys arbitrary: e) (auto split: option.splits sum.splits)

text \<open>
  A label that the encoder has not seen, or a missing one, makes the whole transform
  raise, wherever it stands in the column.
\<close>

lemma transform_unseen:
  assumes "\<exists>y \<in> set ys. \<forall>v. y = Some v \<longrightarrow> v \<notin> set le"
  shows "LabelEncoder_transform le ys = Inl ValueError"
  using assms
proof (induction ys)
  case Nil
  then show ?case by simp
next
  case (Cons y ys)
  show ?case
  proof (cases y)
    case None
    then show ?thesis by simp
  next
    case (Some v)
    show ?thesis
    proof (cases "class_code le v")
      case None
      with Some show ?thesis by simp
    next
      case (Some k)
      then have "v \<in> set le" using class_code_None [of le v] by auto
      with Cons.prems \<open>y = Some v\<close>
      have "\<exists>y \<in> set ys. \<forall>v. y = Some v \<longrightarrow> v \<notin> set le" by auto
      then have "LabelEncoder_transform le ys = Inl ValueError" by (rule Cons.IH)
      with Some \<open>y = Some v\<close> show ?thesis by simp
    qed
  qed
qed

lemma cross_entropy_in_range:
  assumes "length ks = length ps" "\<forall>(k, p) \<in> set (zip ks ps). k < length p"
  shows "per_sample_cross_entropy ks ps =
           Inr (map2 (\<lambda>k p. if 0 < p ! k then Some (- ln (p ! k)) else None) ks ps)"
  using assms by (auto simp: per_sample_cross_entropy_def list_ex_iff)

lemma scoring_regression:
  assumes present: "\<forall>r \<in> set (rows ds). snd r \<noteq> None"
    and len: "length (predict m (features_columns ds)) = length (rows ds)"
  shows "\<exists>scores. scoring_func REGRESSION m tr ds = Inr scores \<and> length scores = length (rows ds)
           \<and> (\<forall>i < length (rows ds).
                 scores ! i = Some ((the (snd (rows ds ! i)) - predict m (features_columns ds) ! i)\<^sup>2))"
proof -
  let ?scores = "map2 (\<lambda>y p. map_option (\<lambda>v. (v - p)\<^sup>2) y) (label_col ds) (predict m (features_columns ds))"
  have eq: "scoring_func REGRESSION m tr ds = Inr ?scores"
    using len by (simp add: scoring_func_def per_sample_mse_def label_col_def)
  have l: "length ?scores = length (rows ds)" using len by (simp add: label_col_def)
  have "?scores ! i = Some ((the (snd (rows ds ! i)) - predict m (features_columns ds) ! i)\<^sup>2)"
    if "i < length (rows ds)" for i
  proof -
    from that present have "snd (rows ds ! i) \<noteq> None" by simp
    then obtain v where "snd (rows ds ! i) = Some v" by auto
    then show ?thesis using that len by (simp add: label_col_def)
  qed
  with eq l show ?thesis by blast
qed

lemma scoring_classification:
  assumes present: "\<forall>r \<in> set (rows ds). snd r \<noteq> None"
    and t: "t \<noteq> REGRESSION"
    and known: "\<forall>r \<in> set (rows ds). the (snd r) \<in> set (classes tr)"
    and len: "length (predict_proba m (features_columns ds)) = length (rows ds)"
    and wide: "\<forall>p \<in> set (predict_proba m (features_columns ds)). length (classes tr) \<le> length p"
  shows "\<exists>scores. scoring_func t m tr ds = Inr scores \<and> length scores = length (rows ds)
           \<and> (\<forall>i < length (rows ds). \<exists>k < length (classes tr).
                 classes tr ! k = the (snd (rows ds ! i))
                 \<and> scores ! i =
                     (if 0 < predict_proba m (features_columns ds) ! i ! k
                      then Some (- ln (predict_proba m (features_columns ds) ! i ! k))
                      else None))"
proof -
  let ?cs = "classes tr"
  let ?ps = "predict_proba m (features_columns ds)"
  let ?code = "\<lambda>y. the (class_code ?cs (the y))"
  let ?ks = "map ?code (label_col ds)"
  let ?scores = "map2 (\<lambda>k p. if 0 < p ! k then Some (- ln (p ! k)) else None) ?ks ?ps"
  have code: "\<exists>k. class_code ?cs (the (snd r)) = Some k \<and> k < length ?cs \<and> ?cs ! k = the (snd r)"
    if "r \<in> set (rows ds)" for r
    using that known class_code_member by fast
  have "\<forall>y \<in> set (label_col ds). \<exists>v. y = Some v \<and> v \<in> set ?cs"
    using present known by (fastforce simp: label_col_def)
  then have tr: "LabelEncoder_transform ?cs (label_col ds) = Inr ?ks"
    by (rule transform_present)
  have lk: "length ?ks = length ?ps" using len by (simp add: label_col_def)
  have inr: "\<forall>(k, p) \<in> set (zip ?ks ?ps). k < length p"
  proof (clarify)
    fix k p assume "(k, p) \<in> set (zip ?ks ?ps)"
    then have k: "k \<in> set ?ks" and p: "p \<in> set ?ps" by (auto dest: set_zip_leftD set_zip_rightD)
    from k obtain r where "r \<in> set (rows ds)" "k = ?code (snd r)" by (auto simp: label_col_def)
    with code have "k < length ?cs" by fastforce
    with p wide show "k < length p" by fastforce
  qed
  have eq: "scoring_func t m tr ds = Inr ?scores"
    using t tr cross_entropy_in_range [OF lk inr]
    by (simp add: scoring_func_def LabelEncoder_fit_classes)
  have l: "length ?scores = length (rows ds)" using len by (simp add: label_col_def)
  have "\<exists>k < length ?cs. ?cs ! k = the (snd (rows ds ! i))
          \<and> ?scores ! i = (if 0 < ?ps ! i ! k then Some (- ln (?ps ! i ! k)) else None)"
    if "i < length (rows ds)" for i
  proof -
    from that have "rows ds ! i \<in> set (rows ds)" by simp
    from code [OF this] obtain k where k: "class_code ?cs (the (snd (rows ds ! i))) = Some k"
      "k < length ?cs" "?cs ! k = the (snd (rows ds ! i))" by blast
    have "?scores ! i = (if 0 < ?ps ! i ! k then Some (- ln (?ps ! i ! k)) else None)"
      using that len k(1) by (simp add: label_col_def)
    with k show ?thesis by blast
  qed
  with eq l show ?thesis by blast
qed

lemma scoring_unseen:
  assumes t: "t \<noteq> REGRESSION"
    and unseen: "\<exists>r \<in> set (rows ds). the (snd r) \<notin> set (classes tr)"
  shows "scoring_func t m tr ds = Inl ValueError"
proof -
  from unseen obtain r where r: "r \<in> set (rows ds)" "the (snd r) \<notin> set (classes tr)"
    by blast
  have "snd r \<in> set (label_col ds)"
    using r(1) by (simp add: label_col_def)
  moreover have "\<forall>v. snd r = Some v \<longrightarrow> v \<notin> set (classes tr)"
    using r(2) by auto
  ultimately have "\<exists>y \<in> set (label_col ds). \<forall>v. y = Some v \<longrightarrow> v \<notin> set (classes tr)"
    by blast
  then have "LabelEncoder_transform (classes tr) (label_col ds) = Inl ValueError"
    by (rule transform_unseen)
  with t show ?thesis by (simp add: scoring_func_def LabelEncoder_fit_classes)
qed

lemma error_scores_scoring:
  assumes "error_scores ext self ctx = Inr (sc, tr, te, trs, tes)"
  shows "tr = sample ext (n_samples self) (random_state self) True (train ctx)
         \<and> te = sample ext (n_samples self) (random_state self) True (test ctx)
         \<and> scoring_func (task_type ctx) (model ctx) tr tr = Inr trs
         \<and> scoring_func (task_type ctx) (model ctx) tr te = Inr tes"
  using assms by (auto simp: error_scores_def Let_def split: sum.splits)

text \<open>
  Claim C4, as the code has it. For every dataset whose labels are all present: when the
  task type is REGRESSION and the model predicts one value for each row, the score of
  each row is the squared difference of its label and the model's prediction. Otherwise,
  when every label of the dataset occurs among the classes of the train dataset and the
  model gives each row a probability for every such class, the score of each row is the
  cross-entropy of its true class: minus the logarithm of the probability that
  \<^verbatim>\<open>predict_proba\<close> gives at the position \<open>k\<close> of the row's label among the classes of
  the train dataset, which is the code the fitted label encoder assigns (no finite score
  when that probability is not positive). When some label of the dataset does not occur
  among the classes of the train dataset, scoring raises ValueError. In a run, the train
  dataset whose classes the encoder is fitted on is the sampled one, and both sampled
  datasets are scored with it.
\<close>

theorem scoring_func_error_score:
  assumes "\<forall>r \<in> set (rows ds). snd r \<noteq> None"
  shows "(length (predict m (features_columns ds)) = length (rows ds) \<longrightarrow>
           (\<exists>scores. scoring_func REGRESSION m tr ds = Inr scores \<and> length scores = length (rows ds)
              \<and> (\<forall>i < length (rows ds).
                    scores ! i = Some ((the (snd (rows ds ! i)) - predict m (features_columns ds) ! i)\<^sup>2))))
       \<and> (t \<noteq> REGRESSION \<longrightarrow> (\<forall>r \<in> set (rows ds). the (snd r) \<in> set (classes tr)) \<longrightarrow>
          length (predict_proba m (features_columns ds)) = length (rows ds) \<longrightarrow>
          (\<forall>p \<in> set (predict_proba m (features_columns ds)). length (classes tr) \<le> length p) \<longrightarrow>
           (\<exists>scores. scoring_func t m tr ds = Inr scores \<and> length scores = length (rows ds)
              \<and> (\<forall>i < length (rows ds). \<exists>k < length (classes tr).
                    classes tr ! k = the (snd (rows ds ! i))
                    \<and> scores ! i =
                        (if 0 < predict_proba m (features_columns ds) ! i ! k
                         then Some (- ln (predict_proba m (features_columns ds) ! i ! k))
                         else None))))
       \<and> (t \<noteq> REGRESSION \<longrightarrow> (\<exists>r \<in> set (rows ds). the (snd r) \<notin> set (classes tr)) \<longrightarrow>
            scoring_func t m tr ds = Inl ValueError)
       \<and> (error_scores ext self ctx = Inr (sc, train_dataset, test_dataset, train_scores, test_scores) \<longrightarrow>
            train_dataset = sample ext (n_samples self) (random_state self) True (train ctx)
            \<and> test_dataset = sample ext (n_samples self) (random_state self) True (test ctx)
            \<and> scoring_func (task_type ctx) (model ctx) train_dataset train_dataset = Inr train_scores
            \<and> scoring_func (task_type ctx) (model ctx) train_dataset test_dataset = Inr test_scores)"
proof (intro conjI impI)
  assume "length (predict m (features_columns ds)) = length (rows ds)"
  then show "\<exists>scores. scoring_func REGRESSION m tr ds = Inr scores \<and> length scores = length (rows ds)
              \<and> (\<forall>i < length (rows ds).
                    scores ! i = Some ((the (snd (rows ds ! i)) - predict m (features_columns ds) ! i)\<^sup>2))"
    by (rule scoring_regression [OF assms])
next
  assume "t \<noteq> REGRESSION" "\<forall>r \<in> set (rows ds). the (snd r) \<in> set (classes tr)"
    "length (predict_proba m (features_columns ds)) = length (rows ds)"
    "\<forall>p \<in> set (predict_proba m (features_columns ds)). length (classes tr) \<le> length p"
  then show "\<exists>scores. scoring_func t m tr ds = Inr scores \<and> length scores = length (rows ds)
              \<and> (\<forall>i < length (rows ds). \<exists>k < length (classes tr).
                    classes tr ! k = the (snd (rows ds ! i))
                    \<and> scores ! i =
                        (if 0 < predict_proba m (features_columns ds) ! i ! k
                         then Some (- ln (predict_proba m (features_columns ds) ! i ! k))
                         else None))"
    by (rule scoring_classification [OF assms])
next
  assume "t \<noteq> REGRESSION" "\<exists>r \<in> set (rows ds). the (snd r) \<notin> set (classes tr)"
  then show "scoring_func t m tr ds = Inl ValueError"
    by (rule scoring_unseen)
next
  assume e: "error_scores ext self ctx =
               Inr (sc, train_dataset, test_dataset, train_scores, test_scores)"
  note r = error_scores_scoring [OF e]
  from r show "train_dataset = sample ext (n_samples self) (random_state self) True (train ctx)"
    by (rule conjunct1)
  from r show "test_dataset = sample ext (n_samples self) (random_state self) True (test ctx)"
    by (elim conjE)
  from r show "scoring_func (task_type ctx) (model ctx) train_dataset train_dataset = Inr train_scores"
    by (elim conjE)
  from r show "scoring_func (task_type ctx) (model ctx) train_dataset test_dataset = Inr test_scores"
    by (elim conjE)
qed

lemma classes_scored_train: "classes scored_train = [3, 5]"
  by (simp add: classes_def scored_train_def)

text \<open>
  The sampled datasets of the example run: one test row with label 5, the train classes
  3 and 5; and a test row with the label 4.
\<close>

theorem scoring_func_error_score_witness:
  "list_all (\<lambda>r. snd r \<noteq> None) (rows scored_test)
   \<and> length (predict example_model (features_columns scored_test)) = length (rows scored_test)
   \<and> BINARY \<noteq> REGRESSION
   \<and> list_all (\<lambda>r. the (snd r) \<in> set (classes scored_train)) (rows scored_test)
   \<and> length (predict_proba example_model (features_columns scored_test)) = length (rows scored_test)
   \<and> list_all (\<lambda>p. length (classes scored_train) \<le> length p)
         (predict_proba example_model (features_columns scored_test))
   \<and> (\<exists>scores. scoring_func REGRESSION example_model scored_train scored_test = Inr scores
         \<and> length scores = length (rows scored_test)
         \<and> (\<forall>i < length (rows scored_test).
               scores ! i = Some ((the (snd (rows scored_test ! i))
                                   - predict example_model (features_columns scored_test) ! i)\<^sup>2)))
   \<and> (\<exists>scores. scoring_func BINARY example_model scored_train scored_test = Inr scores
         \<and> length scores = length (rows scored_test)
         \<and> (\<forall>i < length (rows scored_test). \<exists>k < length (classes scored_train).
               classes scored_train ! k = the (snd (rows scored_test ! i))
               \<and> scores ! i =
                   (if 0 < predict_proba example_model (features_columns scored_test) ! i ! k
                    then Some (- ln (predict_proba example_model
                                       (features_columns scored_test) ! i ! k))
                    else None)))
   \<and> list_all (\<lambda>r. snd r \<noteq> None) (rows unseen_test)
   \<and> list_ex (\<lambda>r. the (snd r) \<notin> set (classes scored_train)) (rows unseen_test)
   \<and> scoring_func BINARY example_model scored_train unseen_test = Inl ValueError"
proof -
  have h1: "\<forall>r \<in> set (rows scored_test). snd r \<noteq> None"
    by (simp add: scored_test_def)
  have h2: "length (predict example_model (features_columns scored_test)) = length (rows scored_test)"
    by (simp add: example_model_def features_columns_def)
  have h3: "BINARY \<noteq> REGRESSION" by simp
  have h4: "\<forall>r \<in> set (rows scored_test). the (snd r) \<in> set (classes scored_train)"
    by (simp add: classes_scored_train) (simp add: scored_test_def)
  have h5: "length (predict_proba example_model (features_columns scored_test)) = length (rows scored_test)"
    by (simp add: example_model_def features_columns_def)
  have h6: "\<forall>p \<in> set (predict_proba example_model (features_columns scored_test)).
         length (classes scored_train) \<le> length p"
    by (simp add: classes_scored_train) (simp add: example_model_def features_columns_def scored_test_def)
  have u1: "\<forall>r \<in> set (rows unseen_test). snd r \<noteq> None"
    by (simp add: unseen_test_def)
  have u2: "\<exists>r \<in> set (rows unseen_test). the (snd r) \<notin> set (classes scored_train)"
    by (simp add: classes_scored_train) (simp add: unseen_test_def)
  note a = scoring_func_error_score [OF h1, where m = example_model and tr = scored_train
      and t = BINARY]
  have c1: "\<exists>scores. scoring_func REGRESSION example_model scored_train scored_test = Inr scores
         \<and> length scores = length (rows scored_test)
         \<and> (\<forall>i < length (rows scored_test).
               scores ! i = Some ((the (snd (rows scored_test ! i))
                                   - predict example_model (features_columns scored_test) ! i)\<^sup>2))"
    by (rule a [THEN conjunct1, THEN mp, OF h2])
  have c2: "\<exists>scores. scoring_func BINARY example_model scored_train scored_test = Inr scores
         \<and> length scores = length (rows scored_test)
         \<and> (\<forall>i < length (rows scored_test). \<exists>k < length (classes scored_train).
               classes scored_train ! k = the (snd (rows scored_test ! i))
               \<and> scores ! i =
                   (if 0 < predict_proba example_model (features_columns scored_test) ! i ! k
                    then Some (- ln (predict_proba example_model
                                       (features_columns scored_test) ! i ! k))
                    else None))"
    by (rule a [THEN conjunct2, THEN conjunct1, THEN mp, THEN mp, THEN mp, THEN mp,
          OF h3 h4 h5 h6])
  note b = scoring_func_error_score [OF u1, where m = example_model and tr = scored_train
      and t = BINARY]
  have c3: "scoring_func BINARY example_model scored_train unseen_test = Inl ValueError"
    by (rule b [THEN conjunct2, THEN conjunct2, THEN conjunct1, THEN mp, THEN mp, OF h3 u2])
  from h1 h4 h6 u1 have l: "list_all (\<lambda>r. snd r \<noteq> None) (rows scored_test)"
    "list_all (\<lambda>r. the (snd r) \<in> set (classes scored_train)) (rows scored_test)"
    "list_all (\<lambda>p. length (classes scored_train) \<le> length p)
         (predict_proba example_model (features_columns scored_test))"
    "list_all (\<lambda>r. snd r \<noteq> None) (rows unseen_test)"
    by (simp_all add: list_all_iff)
  from u2 have e: "list_ex (\<lambda>r. the (snd r) \<notin> set (classes scored_train)) (rows unseen_test)"
    by (simp add: list_ex_iff)
  show ?thesis
    by (intro conjI) (fact l h2 h3 h5 c1 c2 c3 e)+
qed

lemma scoring_values:
  "scoring_func REGRESSION example_model scored_train scored_test = Inr [Some 16]"
  "scoring_func BINARY example_model scored_train scored_test = Inr [Some 0]"
  by (simp_all add: scoring_func_def per_sample_mse_def per_sample_cross_entropy_def
      LabelEncoder_fit_def classes_scored_train label_col_def features_columns_def
      scored_test_def example_model_def Let_def)

text \<open>A true class predicted with probability 0 has no finite score.\<close>

lemma scoring_zero_probability:
  "scoring_func BINARY example_model scored_train scored_train = Inr [Some 0, None]"
  by (simp add: scoring_func_def LabelEncoder_fit_def classes_scored_train Let_def)
     (simp add: per_sample_cross_entropy_def label_col_def features_columns_def
        scored_train_def example_model_def)

lemma ex_sample_unseen:
  "sample example_externals 50000 42 True (example_test\<lparr>rows := [(4, Some 4), (6, None)]\<rparr>) =
     example_test\<lparr>rows := [(4, Some 4)]\<rparr>"
  by (simp add: sample_def drop_na_def example_externals_def)

text \<open>
  Claim C4 as the specification words it, a cross-entropy score for every dataset with
  present labels, fails on a held-out dataset with the label 4 when the sampled train
  dataset has the classes 3 and 5: every label is present, and scoring raises ValueError,
  as does the run.
\<close>

theorem scoring_unseen_label_raises:
  "list_all (\<lambda>r. snd r \<noteq> None) (rows unseen_test)
   \<and> classes scored_train = [3, 5]
   \<and> scoring_func BINARY example_model scored_train unseen_test = Inl ValueError
   \<and> run_logic example_externals example_check unseen_label_context = Inl ValueError"
proof -
  have a: "list_all (\<lambda>r. snd r \<noteq> None) (rows unseen_test)"
    by (simp add: unseen_test_def)
  have b: "scoring_func BINARY example_model scored_train unseen_test = Inl ValueError"
    by (simp add: scoring_func_def LabelEncoder_fit_def classes_scored_train label_col_def
        unseen_test_def Let_def)
  have tr: "scoring_func BINARY example_model scored_train scored_train = Inr [Some 0, None]"
    by (rule scoring_zero_probability)
  have c: "run_logic example_externals example_check unseen_label_context = Inl ValueError"
    using b tr
    by (simp add: run_logic_def error_scores_def assert_label_def unseen_label_context_def
        example_context_def example_check_def ex_sample_train ex_sample_unseen ex_label
        scored_train_def unseen_test_def Let_def)
  from a classes_scored_train b c show ?thesis by blast
qed

section \<open>The run of the check: labels\<close>










text \<open>
  With a fit quality below the minimum the report has no feature segments and no
  display.
\<close>

lemma low_quality_report:
  assumes "held_out_fit_quality ext self st < min_error_model_score self"
  shows "report ext self ctx st =
           \<lparr>result_value = \<lparr>scorer_name = name (fst st), feature_segments = []\<rparr>, display = None\<rparr>"
  using assms
  by (cases st) (simp add: report_def held_out_fit_quality_def model_error_contribution_def
      error_model_display_def Let_def)


section \<open>The run of the check: a poor error-contribution model\<close>


text \<open>
  Claim C3. For every run that has computed its scores and in which the held-out fit
  quality of the error-contribution model is below \<^verbatim>\<open>min_error_model_score\<close>, the check
  returns a result whose display is None, without the headnote; its value is still
  returned, with the scorer's name and no feature segments.
\<close>

theorem low_fit_quality_no_display:
  assumes "error_scores ext self ctx = Inr st"
    and "held_out_fit_quality ext self st < min_error_model_score self"
  shows "run_logic ext self ctx =
           Inr \<lparr>result_value = \<lparr>scorer_name = name (fst st), feature_segments = []\<rparr>,
                display = None\<rparr>"
  using assms by (simp add: run_logic_def low_quality_report)

text \<open>The example run: its fit quality 0 is below the default minimum 1/2.\<close>

theorem low_fit_quality_no_display_witness:
  "error_scores example_externals example_check (example_context REGRESSION) =
     Inr (example_scorer, example_train\<lparr>rows := [(9, Some 5), (7, Some 3)]\<rparr>,
          example_test\<lparr>rows := [(4, Some 5)]\<rparr>, [Some 16, Some 4], [Some 16])
   \<and> held_out_fit_quality example_externals example_check
        (example_scorer, example_train\<lparr>rows := [(9, Some 5), (7, Some 3)]\<rparr>,
         example_test\<lparr>rows := [(4, Some 5)]\<rparr>, [Some 16, Some 4], [Some 16])
       < min_error_model_score example_check
   \<and> run_logic example_externals example_check (example_context REGRESSION) =
       Inr \<lparr>result_value = \<lparr>scorer_name = ''Accuracy'', feature_segments = []\<rparr>, display = None\<rparr>"
proof -
  let ?st = "(example_scorer, example_train\<lparr>rows := [(9, Some 5), (7, Some 3)]\<rparr>,
          example_test\<lparr>rows := [(4, Some 5)]\<rparr>, [Some 16, Some 4], [Some (16::real)])"
  have q: "held_out_fit_quality example_externals example_check ?st < min_error_model_score example_check"
    by (simp add: held_out_fit_quality_def error_model_score_def example_externals_def example_check_def)
  from low_fit_quality_no_display [OF ex_scores q] ex_scores q
  show ?thesis by (simp add: example_scorer_def)
qed

text \<open>
  In contrast, the same run with a fit quality of 1 shows the headnote and one figure.
\<close>

lemma good_quality_example:
  "run_logic (example_externals\<lparr>fit_quality := (\<lambda>scores predicted. 1)\<rparr>) example_check (example_context REGRESSION) =
     Inr \<lparr>result_value = \<lparr>scorer_name = ''Accuracy'', feature_segments = [(''age'', two 1 (1 / 2))]\<rparr>,
          display = Some [Html headnote, Figure ''age'']\<rparr>"
proof -
  have "error_scores (example_externals\<lparr>fit_quality := (\<lambda>scores predicted. 1)\<rparr>) example_check (example_context REGRESSION) =
     Inr (example_scorer, example_train\<lparr>rows := [(9, Some 5), (7, Some 3)]\<rparr>,
          example_test\<lparr>rows := [(4, Some 5)]\<rparr>, [Some 16, Some 4], [Some 16])"
    by (simp add: error_scores_def assert_label_def example_context_def example_check_def
      sample_def drop_na_def example_externals_def scoring_func_def per_sample_mse_def label_col_def
      features_columns_def example_model_def example_train_def example_test_def Let_def)
  then show ?thesis
    by (simp add: run_logic_def report_def model_error_contribution_def error_model_score_def
        error_model_display_def example_externals_def example_check_def example_scorer_def Let_def)
qed

end
